theory Spec2Isabelle
  imports Main "HOL-Library.Word"
begin

unbundle bit_operations_syntax

section \<open>Python values used by the parsers\<close>

text \<open>
  A \<open>bytes\<close> object is a list of 8-bit words. A Python \<open>str\<close> is a list of Unicode
  code points (natural numbers), since decoded text may hold any code point, in
  particular the replacement character U+FFFD.
\<close>

type_synonym byte = "8 word"
type_synonym bytes = "byte list"
type_synonym pystr = "nat list"

definition ustr :: "string \<Rightarrow> pystr" where
  "ustr s = map of_char s"

definition bstr :: "string \<Rightarrow> bytes" where
  "bstr s = map of_char s"

text \<open>\<open>xs[a:b]\<close> for \<open>0 \<le> a\<close>: out-of-range bounds are clamped, nothing is raised.\<close>

definition py_slice :: "'a list \<Rightarrow> nat \<Rightarrow> nat \<Rightarrow> 'a list" where
  "py_slice xs a b = take (b - a) (drop a xs)"

definition startswith :: "pystr \<Rightarrow> pystr \<Rightarrow> bool" where
  "startswith s p = (take (length p) s = p)"

definition endswith :: "pystr \<Rightarrow> pystr \<Rightarrow> bool" where
  "endswith s p = (length p \<le> length s \<and> drop (length s - length p) s = p)"

text \<open>\<open>str.isspace\<close> of one code point: the white-space table of CPython.\<close>

definition py_isspace :: "nat \<Rightarrow> bool" where
  "py_isspace c = ((9 \<le> c \<and> c \<le> 13) \<or> (28 \<le> c \<and> c \<le> 32) \<or> c = 133 \<or> c = 160
     \<or> c = 5760 \<or> (8192 \<le> c \<and> c \<le> 8202) \<or> c = 8232 \<or> c = 8233 \<or> c = 8239
     \<or> c = 8287 \<or> c = 12288)"

definition lstrip_chars :: "pystr \<Rightarrow> pystr \<Rightarrow> pystr" where
  "lstrip_chars cs s = dropWhile (\<lambda>c. c \<in> set cs) s"

definition rstrip_chars :: "pystr \<Rightarrow> pystr \<Rightarrow> pystr" where
  "rstrip_chars cs s = rev (dropWhile (\<lambda>c. c \<in> set cs) (rev s))"

definition strip_chars :: "pystr \<Rightarrow> pystr \<Rightarrow> pystr" where
  "strip_chars cs s = rstrip_chars cs (lstrip_chars cs s)"

text \<open>\<open>s.strip()\<close> without argument removes leading and trailing white space.\<close>

definition strip :: "pystr \<Rightarrow> pystr" where
  "strip s = rev (dropWhile py_isspace (rev (dropWhile py_isspace s)))"

text \<open>\<open>s.split(sep)\<close> for a one-character separator; the result is never empty.\<close>

fun py_split :: "nat \<Rightarrow> pystr \<Rightarrow> pystr list" where
  "py_split sep [] = [[]]"
| "py_split sep (c # cs) =
     (if c = sep then [] # py_split sep cs
      else (case py_split sep cs of [] \<Rightarrow> [[c]] | l # ls \<Rightarrow> (c # l) # ls))"

text \<open>\<open>str(n)\<close> of a non-negative integer: its decimal digits.\<close>

fun str_nat :: "nat \<Rightarrow> pystr" where
  "str_nat n = (if n < 10 then [48 + n] else str_nat (n div 10) @ [48 + n mod 10])"

declare str_nat.simps [simp del]

text \<open>
  \<open>bytes.decode('utf-8')\<close>: the decoder of CPython, one item per decoded code point
  and one \<open>None\<close> per decoding error. An error covers the longest prefix of a well-formed
  sequence (a truncated sequence at the end of the input is one error), and decoding
  resumes after it.
\<close>

definition is_cont :: "nat \<Rightarrow> bool" where
  "is_cont b = (128 \<le> b \<and> b < 192)"

definition ok_second3 :: "nat \<Rightarrow> nat \<Rightarrow> bool" where
  "ok_second3 b0 b1 = (is_cont b1 \<and> (b0 = 224 \<longrightarrow> 160 \<le> b1) \<and> (b0 = 237 \<longrightarrow> b1 < 160))"

definition ok_second4 :: "nat \<Rightarrow> nat \<Rightarrow> bool" where
  "ok_second4 b0 b1 = (is_cont b1 \<and> (b0 = 240 \<longrightarrow> 144 \<le> b1) \<and> (b0 = 244 \<longrightarrow> b1 < 144))"

fun utf8_items :: "nat list \<Rightarrow> nat option list" where
  "utf8_items [] = []"
| "utf8_items (b0 # bs) =
     (if b0 < 128 then Some b0 # utf8_items bs
      else if b0 < 194 then None # utf8_items bs
      else if b0 < 224 then
        (case bs of
           [] \<Rightarrow> [None]
         | b1 # r1 \<Rightarrow>
             if is_cont b1 then Some ((b0 - 192) * 64 + (b1 - 128)) # utf8_items r1
             else None # utf8_items bs)
      else if b0 < 240 then
        (case bs of
           [] \<Rightarrow> [None]
         | b1 # r1 \<Rightarrow>
             if \<not> ok_second3 b0 b1 then None # utf8_items bs
             else (case r1 of
                     [] \<Rightarrow> [None]
                   | b2 # r2 \<Rightarrow>
                       if is_cont b2
                       then Some ((b0 - 224) * 4096 + (b1 - 128) * 64 + (b2 - 128)) # utf8_items r2
                       else None # utf8_items r1))
      else if b0 < 245 then
        (case bs of
           [] \<Rightarrow> [None]
         | b1 # r1 \<Rightarrow>
             if \<not> ok_second4 b0 b1 then None # utf8_items bs
             else (case r1 of
                     [] \<Rightarrow> [None]
                   | b2 # r2 \<Rightarrow>
                       if \<not> is_cont b2 then None # utf8_items r1
                       else (case r2 of
                               [] \<Rightarrow> [None]
                             | b3 # r3 \<Rightarrow>
                                 if is_cont b3
                                 then Some ((b0 - 240) * 262144 + (b1 - 128) * 4096
                                            + (b2 - 128) * 64 + (b3 - 128)) # utf8_items r3
                                 else None # utf8_items r2)))
      else None # utf8_items bs)"

text \<open>\<open>errors='replace'\<close> writes U+FFFD for each error; \<open>errors='strict'\<close> raises.\<close>

definition replace_errors :: "nat option list \<Rightarrow> pystr" where
  "replace_errors items = map (\<lambda>x. case x of None \<Rightarrow> 65533 | Some c \<Rightarrow> c) items"

definition utf8_decode_replace :: "bytes \<Rightarrow> pystr" where
  "utf8_decode_replace bs = replace_errors (utf8_items (map unat bs))"

definition utf8_decode_strict :: "bytes \<Rightarrow> pystr option" where
  "utf8_decode_strict bs =
     (let items = utf8_items (map unat bs)
      in if list_ex (\<lambda>x. x = None) items then None else Some (map the items))"

text \<open>
  \<open>bytes.decode('utf-16-le', errors='replace')\<close>: a lone surrogate is one error of two
  bytes, a high surrogate cut off by the end of the input and an odd last byte are one
  error each.
\<close>

fun utf16_items :: "nat list \<Rightarrow> nat option list" where
  "utf16_items [] = []"
| "utf16_items [b] = [None]"
| "utf16_items (lo # hi # r) =
     (let u = lo + 256 * hi in
      if u < 55296 \<or> 57344 \<le> u then Some u # utf16_items r
      else if u < 56320 then
        (case r of
           lo2 # hi2 # r2 \<Rightarrow>
             (let u2 = lo2 + 256 * hi2 in
              if 56320 \<le> u2 \<and> u2 < 57344
              then Some (65536 + (u - 55296) * 1024 + (u2 - 56320)) # utf16_items r2
              else None # utf16_items r)
         | _ \<Rightarrow> [None])
      else None # utf16_items r)"

definition utf16_le_decode_replace :: "bytes \<Rightarrow> pystr" where
  "utf16_le_decode_replace bs = replace_errors (utf16_items (map unat bs))"

text \<open>The exceptions the code can meet. \<open>str.encode('utf-8')\<close> raises on a surrogate.\<close>

datatype exn =
    StructError
  | UnicodeEncodeError
  | AttributeError
  | ValueError
  | FileNotFoundError
  | LibraryError pystr
  | HTTPException nat pystr

fun utf8_encode_cp :: "nat \<Rightarrow> exn + bytes" where
  "utf8_encode_cp c =
     (if c < 128 then Inr [of_nat c]
      else if c < 2048 then Inr [of_nat (192 + c div 64), of_nat (128 + c mod 64)]
      else if 55296 \<le> c \<and> c < 57344 then Inl UnicodeEncodeError
      else if c < 65536 then
        Inr [of_nat (224 + c div 4096), of_nat (128 + c div 64 mod 64), of_nat (128 + c mod 64)]
      else
        Inr [of_nat (240 + c div 262144), of_nat (128 + c div 4096 mod 64),
             of_nat (128 + c div 64 mod 64), of_nat (128 + c mod 64)])"

fun utf8_encode :: "pystr \<Rightarrow> exn + bytes" where
  "utf8_encode [] = Inr []"
| "utf8_encode (c # cs) =
     (case utf8_encode_cp c of
        Inl e \<Rightarrow> Inl e
      | Inr bs \<Rightarrow> (case utf8_encode cs of Inl e \<Rightarrow> Inl e | Inr rest \<Rightarrow> Inr (bs @ rest)))"

text \<open>
  \<open>struct.unpack_from\<close> of one little-endian unsigned integer of \<open>w\<close> bytes at \<open>pos\<close>:
  it raises \<open>struct.error\<close> unless \<open>w\<close> bytes are there.
\<close>

definition le_nat :: "bytes \<Rightarrow> nat" where
  "le_nat bs = foldr (\<lambda>b n. unat b + 256 * n) bs 0"

definition unpack_from :: "nat \<Rightarrow> bytes \<Rightarrow> nat \<Rightarrow> exn + nat" where
  "unpack_from w content pos =
     (if pos + w \<le> length content then Inr (le_nat (py_slice content pos (pos + w)))
      else Inl StructError)"

text \<open>
  What \<open>json.loads\<close> returns for the translations: an object whose values are strings
  or something else, or a document that is not an object.
\<close>

datatype jvalue = JStr pystr | JOther

datatype jdoc = JObject "(pystr \<times> jvalue) list" | JNotObject

text \<open>
  One extracted string, the dictionary \<open>{"key": ..., "original": ..., "file": ...}\<close> of
  the source; its entry \<open>file\<close> is the field \<open>file_name\<close> here.
\<close>

record string_record =
  key :: pystr
  original :: pystr
  file_name :: pystr

text \<open>
  What the code takes from outside this file: the Unicode tables behind
  \<open>str.isprintable\<close> (beyond ASCII) and \<open>str.lower\<close>, the grammar of \<open>int(s)\<close>,
  \<open>str(e)\<close> of an exception, the UnityPy library (\<open>None\<close> when it is not
  installed, so that its import raises \<open>ImportError\<close>), the fresh and empty directory
  that \<open>tempfile.mkdtemp()\<close> made for the request, and what the file system refuses
  when a file is written for a reason other than the two modelled below (a name that
  cannot be encoded or is too long, a full disk).
\<close>

record pyenv =
  nonascii_printable :: "nat \<Rightarrow> bool"
  lower :: "pystr \<Rightarrow> pystr"
  int_parses :: "pystr \<Rightarrow> bool"
  exn_str :: "exn \<Rightarrow> pystr"
  unitypy_parse :: "(bytes \<Rightarrow> pystr \<Rightarrow> exn + string_record list) option"
  unitypy_patch :: "(bytes \<Rightarrow> jdoc \<Rightarrow> exn + bytes) option"
  mkdtemp :: pystr
  fs_error :: "pystr \<Rightarrow> exn option"

text \<open>\<open>os.path.join(a, b)\<close> on POSIX: an absolute \<open>b\<close> replaces \<open>a\<close>.\<close>

definition path_join :: "pystr \<Rightarrow> pystr \<Rightarrow> pystr" where
  "path_join a b =
     (if startswith b [47] then b
      else if a = [] \<or> last a = 47 then a @ b
      else a @ [47] @ b)"

text \<open>
  \<open>with open(out_path, 'wb') as f: f.write(data)\<close>, with the bytes written as the
  result. \<open>open\<close> raises \<open>ValueError\<close> on a path with a zero character, and
  \<open>FileNotFoundError\<close> when the path does not name a file directly in the fresh directory:
  a path with a further \<open>/\<close> goes through a subdirectory that does not exist.
\<close>

definition write_file :: "pyenv \<Rightarrow> pystr \<Rightarrow> bytes \<Rightarrow> exn + bytes" where
  "write_file env out_path data =
     (case fs_error env out_path of
        Some e \<Rightarrow> Inl e
      | None \<Rightarrow>
          if 0 \<in> set out_path then Inl ValueError
          else if startswith out_path (path_join (mkdtemp env) [])
                  \<and> 47 \<notin> set (drop (length (path_join (mkdtemp env) [])) out_path)
          then Inr data
          else Inl FileNotFoundError)"

text \<open>\<open>s.isprintable()\<close>: in ASCII exactly the code points 32 to 126 are printable.\<close>

definition isprintable :: "pyenv \<Rightarrow> pystr \<Rightarrow> bool" where
  "isprintable env s =
     list_all (\<lambda>c. if c < 128 then 32 \<le> c \<and> c < 127 else nonascii_printable env c) s"

section \<open>Heuristic string scanner\<close>

text \<open>The test \<open>32 <= b < 127 or b in (9, 10, 13)\<close> of \<open>extract_strings_from_binary\<close>.\<close>

definition is_text_byte :: "byte \<Rightarrow> bool" where
  "is_text_byte b = ((32 \<le> unat b \<and> unat b < 127) \<or> unat b = 9 \<or> unat b = 10 \<or> unat b = 13)"

text \<open>
  The \<open>while i < len(content)\<close> loop of \<open>extract_strings_from_binary\<close>, from the byte at
  \<open>i\<close> on: \<open>cur\<close> is \<open>current\<close>, \<open>idx\<close> the counter and \<open>strings\<close> the records so far.
\<close>

fun scan_loop :: "bytes \<Rightarrow> pystr \<Rightarrow> pystr \<Rightarrow> nat \<Rightarrow> string_record list \<Rightarrow> string_record list" where
  "scan_loop [] filename cur idx strings = strings"
| "scan_loop (b # bs) filename cur idx strings =
     (if is_text_byte b then scan_loop bs filename (cur @ [unat b]) idx strings
      else if 8 \<le> length cur then
        (let s = strip cur in
         if s \<noteq> [] \<and> \<not> startswith s (ustr ''//'') \<and> \<not> startswith s (ustr ''#!'')
         then scan_loop bs filename [] (idx + 1)
                (strings @ [\<lparr>key = ustr ''bin_'' @ str_nat idx, original = s, file_name = filename\<rparr>])
         else scan_loop bs filename [] idx strings)
      else scan_loop bs filename [] idx strings)"

definition extract_strings_from_binary :: "bytes \<Rightarrow> pystr \<Rightarrow> string_record list" where
  "extract_strings_from_binary content filename = take 500 (scan_loop content filename [] 0 [])"

section \<open>Unreal string tables (.locres)\<close>

text \<open>
  The readers of \<open>parse_locres\<close> share the position \<open>pos\<close>; here each takes it and
  returns the value read with the new position, or the exception raised.
\<close>

definition read_uint32 :: "bytes \<Rightarrow> nat \<Rightarrow> exn + (nat \<times> nat)" where
  "read_uint32 content pos =
     (case unpack_from 4 content pos of Inl e \<Rightarrow> Inl e | Inr v \<Rightarrow> Inr (v, pos + 4))"

definition read_int32 :: "bytes \<Rightarrow> nat \<Rightarrow> exn + (int \<times> nat)" where
  "read_int32 content pos =
     (case unpack_from 4 content pos of
        Inl e \<Rightarrow> Inl e
      | Inr v \<Rightarrow> Inr (if v < 2 ^ 31 then int v else int v - 2 ^ 32, pos + 4))"

definition read_fstring :: "bytes \<Rightarrow> nat \<Rightarrow> exn + (pystr \<times> nat)" where
  "read_fstring content pos =
     (case read_int32 content pos of
        Inl e \<Rightarrow> Inl e
      | Inr (len, pos1) \<Rightarrow>
          if len = 0 then Inr ([], pos1)
          else if len < 0 then
            (let n = nat (- len)
             in Inr (rstrip_chars [0] (utf16_le_decode_replace (py_slice content pos1 (pos1 + n * 2))),
                     pos1 + n * 2))
          else
            (let n = nat len
             in Inr (rstrip_chars [0] (utf8_decode_replace (py_slice content pos1 (pos1 + n))),
                     pos1 + n)))"

text \<open>The inner loop \<open>for __ in range(key_count)\<close>.\<close>

fun locres_keys ::
  "bytes \<Rightarrow> pystr \<Rightarrow> pystr \<Rightarrow> nat \<Rightarrow> nat \<Rightarrow> string_record list \<Rightarrow> exn + (nat \<times> string_record list)" where
  "locres_keys content filename namespace 0 pos strings = Inr (pos, strings)"
| "locres_keys content filename namespace (Suc n) pos strings =
     (case read_fstring content pos of
        Inl e \<Rightarrow> Inl e
      | Inr (k, pos1) \<Rightarrow>
          (case read_uint32 content pos1 of
             Inl e \<Rightarrow> Inl e
           | Inr (hash, pos2) \<Rightarrow>
               (case read_fstring content pos2 of
                  Inl e \<Rightarrow> Inl e
                | Inr (v, pos3) \<Rightarrow>
                    locres_keys content filename namespace n pos3
                      (if v \<noteq> []
                       then strings @ [\<lparr>key = namespace @ [46] @ k, original = v, file_name = filename\<rparr>]
                       else strings))))"

text \<open>The outer loop \<open>for _ in range(ns_count)\<close>.\<close>

fun locres_namespaces ::
  "bytes \<Rightarrow> pystr \<Rightarrow> nat \<Rightarrow> nat \<Rightarrow> string_record list \<Rightarrow> exn + (nat \<times> string_record list)" where
  "locres_namespaces content filename 0 pos strings = Inr (pos, strings)"
| "locres_namespaces content filename (Suc n) pos strings =
     (case read_fstring content pos of
        Inl e \<Rightarrow> Inl e
      | Inr (namespace, pos1) \<Rightarrow>
          (case read_uint32 content pos1 of
             Inl e \<Rightarrow> Inl e
           | Inr (key_count, pos2) \<Rightarrow>
               (case locres_keys content filename namespace key_count pos2 strings of
                  Inl e \<Rightarrow> Inl e
                | Inr (pos3, strings') \<Rightarrow> locres_namespaces content filename n pos3 strings')))"

text \<open>The body of the \<open>try\<close> of \<open>parse_locres\<close>: the structured walk.\<close>

definition locres_walk :: "bytes \<Rightarrow> pystr \<Rightarrow> exn + string_record list" where
  "locres_walk content filename =
     (case read_uint32 content 16 of
        Inl e \<Rightarrow> Inl e
      | Inr (version, pos1) \<Rightarrow>
          (case read_uint32 content pos1 of
             Inl e \<Rightarrow> Inl e
           | Inr (ns_count, pos2) \<Rightarrow>
               (case locres_namespaces content filename ns_count pos2 [] of
                  Inl e \<Rightarrow> Inl e
                | Inr (pos3, strings) \<Rightarrow> Inr strings)))"

definition parse_locres :: "bytes \<Rightarrow> pystr \<Rightarrow> string_record list" where
  "parse_locres content filename =
     (case locres_walk content filename of
        Inl e \<Rightarrow> extract_strings_from_binary content filename
      | Inr strings \<Rightarrow> strings)"

text \<open>\<open>data.find(search)\<close>: the first index where \<open>search\<close> occurs, or \<open>-1\<close>.\<close>

fun find_from :: "bytes \<Rightarrow> bytes \<Rightarrow> nat \<Rightarrow> int" where
  "find_from [] search i = (if search = [] then int i else - 1)"
| "find_from (d # ds) search i =
     (if take (length search) (d # ds) = search then int i else find_from ds search (Suc i))"

text \<open>
  The loop of \<open>patch_locres\<close> over \<open>translations.items()\<close>. The branch \<open>idx >= 0\<close> is
  \<open>pass\<close>, so \<open>data\<close> is never written.
\<close>

fun patch_locres_loop :: "bytes \<Rightarrow> (pystr \<times> jvalue) list \<Rightarrow> exn + bytes" where
  "patch_locres_loop data [] = Inr data"
| "patch_locres_loop data ((k0, translation) # rest) =
     (let k = (if 46 \<in> set k0 then last (py_split 46 k0) else k0)
      in case utf8_encode k of
           Inl e \<Rightarrow> Inl e
         | Inr enc \<Rightarrow>
             (let search = enc @ [0]; idx = find_from data search 0
              in if 0 \<le> idx then patch_locres_loop data rest else patch_locres_loop data rest))"

text \<open>
  \<open>patch_locres\<close> returns the bytes it writes to \<open>out_path\<close>. \<open>translations\<close> is what
  \<open>json.loads\<close> returned; \<open>.items()\<close> raises on anything but an object.
\<close>

definition patch_locres :: "pyenv \<Rightarrow> bytes \<Rightarrow> jdoc \<Rightarrow> pystr \<Rightarrow> pystr \<Rightarrow> exn + bytes" where
  "patch_locres env content translations language out_path =
     (case translations of
        JNotObject \<Rightarrow> Inl AttributeError
      | JObject items \<Rightarrow>
          (case patch_locres_loop content items of
             Inl e \<Rightarrow> Inl e
           | Inr data \<Rightarrow> write_file env out_path data))"

section \<open>RPG Maker object streams (.rvdata2)\<close>

text \<open>
  The length that follows the tag byte: \<open>length0\<close> is the byte read at \<open>pos - 1\<close>; when
  its high bit is set, its low seven bits count the bytes of a little-endian length.
  The result is the length and the position of the string's first byte.
\<close>

definition rv_length :: "bytes \<Rightarrow> nat \<Rightarrow> byte \<Rightarrow> nat \<times> nat" where
  "rv_length content pos length0 =
     (if length0 AND 0x80 \<noteq> 0 then
        (let nbytes = unat (length0 AND 0x7f)
         in (le_nat (py_slice content pos (pos + nbytes)), pos + nbytes))
      else (unat length0, pos))"

text \<open>
  The \<open>while pos < len(content) - 4\<close> loop of \<open>parse_rvdata2\<close>. Both indexed reads are in
  range under the loop condition, the slices never raise, and the only exception of the
  body, the strict decoder's, is caught inside the loop.
\<close>

function rv_loop ::
  "pyenv \<Rightarrow> bytes \<Rightarrow> pystr \<Rightarrow> nat \<Rightarrow> nat \<Rightarrow> string_record list \<Rightarrow> string_record list" where
  "rv_loop env content filename pos i strings =
     (if pos + 4 < length content then
        (if content ! pos = 0x22 then
           (case utf8_decode_strict
                   (py_slice content (snd (rv_length content (pos + 2) (content ! (pos + 1))))
                      (snd (rv_length content (pos + 2) (content ! (pos + 1)))
                       + fst (rv_length content (pos + 2) (content ! (pos + 1))))) of
              None \<Rightarrow>
                rv_loop env content filename
                  (snd (rv_length content (pos + 2) (content ! (pos + 1))) + 1) i strings
            | Some s \<Rightarrow>
                if 2 < length s \<and> isprintable env s then
                  rv_loop env content filename
                    (snd (rv_length content (pos + 2) (content ! (pos + 1)))
                     + fst (rv_length content (pos + 2) (content ! (pos + 1))))
                    (i + 1)
                    (strings @ [\<lparr>key = ustr ''str_'' @ str_nat i, original = s, file_name = filename\<rparr>])
                else
                  rv_loop env content filename
                    (snd (rv_length content (pos + 2) (content ! (pos + 1)))
                     + fst (rv_length content (pos + 2) (content ! (pos + 1))))
                    i strings)
         else rv_loop env content filename (pos + 1) i strings)
      else strings)"
  by pat_completeness auto
termination
  by (relation "measure (\<lambda>(env, content, filename, pos, i, strings). length content - pos)")
     (auto simp: rv_length_def Let_def)

declare rv_loop.simps [simp del]

definition parse_rvdata2 :: "pyenv \<Rightarrow> bytes \<Rightarrow> pystr \<Rightarrow> string_record list" where
  "parse_rvdata2 env content filename = rv_loop env content filename 2 0 []"

text \<open>
  \<open>patch_rvdata2\<close>: for a key \<open>str_N\<close> the translation is encoded and dropped. A
  \<open>ValueError\<close> (of \<open>int\<close>, or the encoder's) is caught; a translation that is not a string
  has no \<open>encode\<close>.
\<close>

fun patch_rvdata2_loop :: "pyenv \<Rightarrow> bytes \<Rightarrow> (pystr \<times> jvalue) list \<Rightarrow> exn + bytes" where
  "patch_rvdata2_loop env data [] = Inr data"
| "patch_rvdata2_loop env data ((k, translation) # rest) =
     (if startswith k (ustr ''str_'') \<and> int_parses env (drop 4 k) then
        (case translation of
           JOther \<Rightarrow> Inl AttributeError
         | JStr t \<Rightarrow> patch_rvdata2_loop env data rest)
      else patch_rvdata2_loop env data rest)"

definition patch_rvdata2 :: "pyenv \<Rightarrow> bytes \<Rightarrow> jdoc \<Rightarrow> pystr \<Rightarrow> pystr \<Rightarrow> exn + bytes" where
  "patch_rvdata2 env content translations language out_path =
     (case translations of
        JNotObject \<Rightarrow> Inl AttributeError
      | JObject items \<Rightarrow>
          (case patch_rvdata2_loop env content items of
             Inl e \<Rightarrow> Inl e
           | Inr data \<Rightarrow> write_file env out_path data))"

section \<open>Godot archives (.pck)\<close>

text \<open>The loop over \<open>enumerate(text.split('\n'))\<close>, from line index \<open>i\<close> on.\<close>

fun pck_lines :: "pystr \<Rightarrow> nat \<Rightarrow> pystr list \<Rightarrow> string_record list" where
  "pck_lines path i [] = []"
| "pck_lines path i (line # ls) =
     (if startswith line (ustr ''msgid '' @ [34]) \<and> 9 < length line
      then [\<lparr>key = ustr ''pck_'' @ path @ ustr ''_'' @ str_nat i,
             original = py_slice line 7 (length line - 1), file_name = path\<rparr>]
      else [])
     @ pck_lines path (Suc i) ls"

text \<open>The loop \<open>for _ in range(file_count)\<close> over the directory entries.\<close>

fun pck_entries :: "bytes \<Rightarrow> nat \<Rightarrow> nat \<Rightarrow> string_record list \<Rightarrow> exn + string_record list" where
  "pck_entries content 0 pos strings = Inr strings"
| "pck_entries content (Suc n) pos strings =
     (case unpack_from 4 content pos of
        Inl e \<Rightarrow> Inl e
      | Inr path_len \<Rightarrow>
          (let path = rstrip_chars [0]
                        (utf8_decode_replace (py_slice content (pos + 4) (pos + 4 + path_len)));
               pos1 = pos + 4 + path_len
           in case unpack_from 8 content pos1 of
                Inl e \<Rightarrow> Inl e
              | Inr offset \<Rightarrow>
                  (case unpack_from 8 content (pos1 + 8) of
                     Inl e \<Rightarrow> Inl e
                   | Inr sz \<Rightarrow>
                       pck_entries content n (pos1 + 8 + 8 + 16)
                         (if endswith path (ustr ''.po'') \<or> endswith path (ustr ''.csv'')
                             \<or> endswith path (ustr ''.json'') \<or> endswith path (ustr ''.tres'')
                          then strings
                               @ pck_lines path 0
                                   (py_split 10 (utf8_decode_replace (py_slice content offset (offset + sz))))
                          else strings))))"

text \<open>The header reads of \<open>parse_godot_pck\<close>, then the directory.\<close>

definition pck_walk :: "bytes \<Rightarrow> exn + string_record list" where
  "pck_walk content =
     (case unpack_from 4 content 4 of
        Inl e \<Rightarrow> Inl e
      | Inr version \<Rightarrow>
          (case unpack_from 4 content 8 of
             Inl e \<Rightarrow> Inl e
           | Inr major \<Rightarrow>
               (case unpack_from 4 content 12 of
                  Inl e \<Rightarrow> Inl e
                | Inr minor \<Rightarrow>
                    (case unpack_from 4 content 16 of
                       Inl e \<Rightarrow> Inl e
                     | Inr patch \<Rightarrow>
                         (case unpack_from 4 content (20 + 16 * 4) of
                            Inl e \<Rightarrow> Inl e
                          | Inr file_count \<Rightarrow>
                              pck_entries content file_count (20 + 16 * 4 + 4) [])))))"

definition parse_godot_pck :: "bytes \<Rightarrow> pystr \<Rightarrow> string_record list" where
  "parse_godot_pck content filename =
     (if py_slice content 0 4 \<noteq> bstr ''GDPC'' then extract_strings_from_binary content filename
      else (case pck_walk content of
              Inl e \<Rightarrow> extract_strings_from_binary content filename
            | Inr strings \<Rightarrow> strings))"

section \<open>Unity assets\<close>

text \<open>The loop of \<open>parse_unity_yaml_fallback\<close> over \<open>enumerate(lines)\<close>.\<close>

fun yaml_lines :: "pystr \<Rightarrow> nat \<Rightarrow> pystr list \<Rightarrow> string_record list" where
  "yaml_lines filename i [] = []"
| "yaml_lines filename i (line # ls) =
     (if 58 \<in> set line then
        (let k = lstrip_chars (ustr ''- '') (strip (takeWhile (\<lambda>c. c \<noteq> 58) line));
             val = strip_chars [34, 39] (strip (tl (dropWhile (\<lambda>c. c \<noteq> 58) line)))
         in if 3 < length val \<and> \<not> startswith val (ustr ''{'') \<and> \<not> startswith val (ustr ''['')
            then [\<lparr>key = (if k \<noteq> [] then k else ustr ''line_'' @ str_nat i),
                   original = val, file_name = filename\<rparr>]
            else [])
      else [])
     @ yaml_lines filename (Suc i) ls"

definition parse_unity_yaml_fallback :: "bytes \<Rightarrow> pystr \<Rightarrow> string_record list" where
  "parse_unity_yaml_fallback content filename =
     yaml_lines filename 0 (py_split 10 (utf8_decode_replace content))"

definition parse_unity :: "pyenv \<Rightarrow> bytes \<Rightarrow> pystr \<Rightarrow> exn + string_record list" where
  "parse_unity env content filename =
     (case unitypy_parse env of
        None \<Rightarrow> Inr (parse_unity_yaml_fallback content filename)
      | Some run \<Rightarrow> run content filename)"

text \<open>
  \<open>patch_unity\<close>: without the library the input is written back; with it, what the
  library saved (or the exception it raised).
\<close>

definition patch_unity :: "pyenv \<Rightarrow> bytes \<Rightarrow> jdoc \<Rightarrow> pystr \<Rightarrow> pystr \<Rightarrow> exn + bytes" where
  "patch_unity env content translations language out_path =
     (case unitypy_patch env of
        None \<Rightarrow> write_file env out_path content
      | Some run \<Rightarrow>
          (case run content translations of
             Inl e \<Rightarrow> Inl e
           | Inr saved \<Rightarrow> write_file env out_path saved))"

section \<open>The two endpoints\<close>

record parse_response =
  resp_engine :: pystr
  resp_filename :: pystr
  resp_total :: nat
  resp_strings :: "string_record list"

text \<open>
  \<open>parse_file\<close>: the chain of tests on the engine and on the lower-cased file name. The
  \<open>HTTPException(400)\<close> of the last branch is raised inside the \<open>try\<close>, so the handler
  \<open>except Exception\<close> catches it too and raises the status 500 in its place.
\<close>

definition parse_file :: "pyenv \<Rightarrow> bytes \<Rightarrow> pystr \<Rightarrow> pystr \<Rightarrow> exn + parse_response" where
  "parse_file env content file_filename eng =
     (let fname = lower env file_filename
      in case (if eng = ustr ''unity'' \<or> endswith fname (ustr ''.assets'')
                  \<or> endswith fname (ustr ''.asset'') \<or> endswith fname (ustr ''.bundle'')
               then parse_unity env content fname
               else if eng = ustr ''unreal'' \<or> endswith fname (ustr ''.locres'')
               then Inr (parse_locres content fname)
               else if eng = ustr ''rpgmaker_xp'' \<or> endswith fname (ustr ''.rvdata2'')
               then Inr (parse_rvdata2 env content fname)
               else if eng = ustr ''godot'' \<and> endswith fname (ustr ''.pck'')
               then Inr (parse_godot_pck content fname)
               else Inl (HTTPException 400 (ustr ''Formato non supportato: '' @ fname))) of
           Inl e \<Rightarrow> Inl (HTTPException 500 (ustr ''Errore parsing: '' @ exn_str env e))
         | Inr found \<Rightarrow>
             Inr \<lparr>resp_engine = eng, resp_filename = file_filename,
                  resp_total = length found, resp_strings = found\<rparr>)"

record file_response =
  response_path :: pystr
  download_name :: pystr
  body :: bytes

text \<open>
  \<open>generate_patch\<close>, from the parsed \<open>translations\<close> and the directory of
  \<open>tempfile.mkdtemp()\<close> on. The patcher writes the file \<open>out_path\<close> inside the \<open>try\<close>,
  so a file that cannot be written is one more exception the handler turns into the
  status 500. \<open>FileResponse(out_path, ...)\<close> carries the bytes of that file.
\<close>

definition generate_patch ::
  "pyenv \<Rightarrow> bytes \<Rightarrow> pystr \<Rightarrow> pystr \<Rightarrow> pystr \<Rightarrow> jdoc \<Rightarrow> exn + file_response" where
  "generate_patch env content file_filename eng language translations =
     (let out_path = path_join (mkdtemp env) (ustr ''patched_'' @ file_filename)
      in case (if eng = ustr ''unity''
               then patch_unity env content translations language out_path
               else if eng = ustr ''unreal''
               then patch_locres env content translations language out_path
               else if eng = ustr ''rpgmaker_xp''
               then patch_rvdata2 env content translations language out_path
               else Inl (HTTPException 400 (ustr ''Patch non supportata per engine: '' @ eng))) of
           Inl e \<Rightarrow> Inl (HTTPException 500 (ustr ''Errore generazione patch: '' @ exn_str env e))
         | Inr written \<Rightarrow>
             Inr \<lparr>response_path = out_path,
                  download_name = ustr ''patched_'' @ language @ ustr ''_'' @ file_filename,
                  body = written\<rparr>)"

section \<open>The scanner, as the specification words it\<close>

text \<open>
  \<open>split_where P xs\<close> cuts \<open>xs\<close> at every element that satisfies \<open>P\<close>, as \<open>str.split\<close>
  cuts at a separator. The runs the specification speaks of are the pieces between the
  bytes that are not text; the last piece is the one no byte terminates.
\<close>

fun split_where :: "('a \<Rightarrow> bool) \<Rightarrow> 'a list \<Rightarrow> 'a list list" where
  "split_where P [] = [[]]"
| "split_where P (x # xs) =
     (if P x then [] # split_where P xs
      else (case split_where P xs of [] \<Rightarrow> [[x]] | s # ss \<Rightarrow> (x # s) # ss))"

definition spec_runs :: "bytes \<Rightarrow> bytes list" where
  "spec_runs content = butlast (split_where (\<lambda>b. \<not> is_text_byte b) content)"

text \<open>
  What one terminated run contributes: its trimmed text, when the run has at least 8
  characters and the trimmed text is not empty and starts with neither comment marker.
\<close>

definition spec_emit :: "bytes \<Rightarrow> pystr list" where
  "spec_emit r =
     (let s = strip (map unat r)
      in if 8 \<le> length r \<and> s \<noteq> [] \<and> \<not> startswith s (ustr ''//'') \<and> \<not> startswith s (ustr ''#!'')
         then [s] else [])"

text \<open>Records keyed by a sequential counter that starts at \<open>n\<close>.\<close>

definition spec_records :: "pystr \<Rightarrow> nat \<Rightarrow> pystr list \<Rightarrow> string_record list" where
  "spec_records filename n ss =
     map (\<lambda>(i, s). \<lparr>key = ustr ''bin_'' @ str_nat i, original = s, file_name = filename\<rparr>)
       (enumerate n ss)"

definition spec_scan :: "bytes \<Rightarrow> pystr \<Rightarrow> string_record list" where
  "spec_scan content filename =
     take 500 (spec_records filename 0 (concat (map spec_emit (spec_runs content))))"

section \<open>Example inputs\<close>

text \<open>
  A buffer with six terminated runs (a comment, a padded text, a blank run, a short run,
  a script line and a second text) and a last run that nothing terminates.
\<close>

definition scan_example :: bytes where
  "scan_example =
     bstr ''// a comment'' @ [0] @ bstr ''  hello world '' @ [0] @ bstr ''        '' @ [1]
     @ bstr ''short'' @ [0] @ bstr ''#!/bin/sh -e'' @ [255] @ bstr ''second text'' @ [0]
     @ bstr ''unterminated text''"

text \<open>
  An environment for the examples: ASCII only, UnityPy not installed, \<open>str(e)\<close> of an
  HTTP exception written as the status code, a colon and the detail, the temporary
  directory \<open>/tmp/tmpx\<close>, and a file system that refuses nothing more.
\<close>

definition example_env :: pyenv where
  "example_env =
     \<lparr>nonascii_printable = (\<lambda>c. False), lower = (\<lambda>s. s), int_parses = (\<lambda>s. False),
      exn_str = (\<lambda>e. case e of HTTPException code detail \<Rightarrow> str_nat code @ ustr '': '' @ detail
                           | _ \<Rightarrow> []),
      unitypy_parse = None, unitypy_patch = None,
      mkdtemp = ustr ''/tmp/tmpx'', fs_error = (\<lambda>p. None)\<rparr>"

text \<open>The same environment with a UnityPy whose loader raises on every input.\<close>

definition broken_unity_env :: pyenv where
  "broken_unity_env =
     example_env\<lparr>unitypy_parse := Some (\<lambda>content filename. Inl (LibraryError (ustr ''bad file'')))\<rparr>"









text \<open>
  A string table with the namespace \<open>ns\<close> and two entries, \<open>k\<close> with the value \<open>Hi\<close> and
  \<open>m\<close> with the value \<open>Bye\<close>; every string ends with a zero byte that its prefix counts.
  The prefix of the value \<open>Hi\<close> is the four bytes at offset 45.
\<close>

definition locres_example :: bytes where
  "locres_example =
     replicate 16 0 @ [1, 0, 0, 0] @ [1, 0, 0, 0]
     @ [3, 0, 0, 0] @ bstr ''ns'' @ [0] @ [2, 0, 0, 0]
     @ [2, 0, 0, 0] @ bstr ''k'' @ [0] @ [7, 7, 7, 7] @ [3, 0, 0, 0] @ bstr ''Hi'' @ [0]
     @ [2, 0, 0, 0] @ bstr ''m'' @ [0] @ [8, 8, 8, 8] @ [4, 0, 0, 0] @ bstr ''Bye'' @ [0]"

text \<open>
  A table cut short: one entry \<open>k\<close> in the empty namespace, whose value declares 100
  bytes (the prefix at offset 41) while only the three bytes \<open>abc\<close> follow.
\<close>

definition locres_truncated :: bytes where
  "locres_truncated =
     replicate 16 0 @ [1, 0, 0, 0] @ [1, 0, 0, 0]
     @ [0, 0, 0, 0] @ [1, 0, 0, 0]
     @ [1, 0, 0, 0] @ bstr ''k'' @ [7, 7, 7, 7] @ [100, 0, 0, 0] @ bstr ''abc''"

text \<open>A table cut inside its second entry: the first entry reads, the hash of the second does not.\<close>

definition locres_cut :: bytes where
  "locres_cut =
     replicate 16 0 @ [1, 0, 0, 0] @ [1, 0, 0, 0]
     @ [2, 0, 0, 0] @ bstr ''ns'' @ [2, 0, 0, 0]
     @ [1, 0, 0, 0] @ bstr ''k'' @ [7, 7, 7, 7] @ [12, 0, 0, 0] @ bstr ''Hello world!''
     @ [1, 0, 0, 0] @ bstr ''m'' @ [8, 8]"

text \<open>A table that holds the entry \<open>k\<close> of the namespace \<open>ns\<close> twice.\<close>

definition locres_duplicate :: bytes where
  "locres_duplicate =
     replicate 16 0 @ [1, 0, 0, 0] @ [1, 0, 0, 0]
     @ [2, 0, 0, 0] @ bstr ''ns'' @ [2, 0, 0, 0]
     @ [1, 0, 0, 0] @ bstr ''k'' @ [7, 7, 7, 7] @ [2, 0, 0, 0] @ bstr ''Hi''
     @ [1, 0, 0, 0] @ bstr ''k'' @ [8, 8, 8, 8] @ [3, 0, 0, 0] @ bstr ''Bye''"

text \<open>A textual asset with the field \<open>a\<close> on two lines.\<close>

definition yaml_duplicate :: bytes where
  "yaml_duplicate = bstr ''a: hello'' @ [10] @ bstr ''a: world''"


text \<open>
  An object stream: the string \<open>abc\<close> with a one-byte length, an array tag, the string
  \<open>wxyz\<close> whose length is written in one following byte, and the string \<open>no\<close>.
\<close>

definition rv_example :: bytes where
  "rv_example =
     [4, 8, 0x22, 3] @ bstr ''abc'' @ [0x5B, 0x22, 0x81, 4] @ bstr ''wxyz''
     @ [0x22, 2] @ bstr ''no'' @ [0, 0, 0, 0, 0]"

text \<open>A string tag whose length byte, 122, is more than the 7 bytes that follow.\<close>

definition rv_overlong :: bytes where
  "rv_overlong = [4, 8, 0x22, 0x7A] @ bstr ''abcdefg''"

text \<open>
  A tag byte followed by a second tag byte, the string \<open>abc\<close> of that second tag, and a
  byte that is not UTF-8.
\<close>

definition rv_resync :: bytes where
  "rv_resync = [4, 8, 0x22, 0x22, 3] @ bstr ''abc'' @ [0xFF, 0, 0, 0, 0, 0]"


text \<open>The value a string of decimal digits denotes.\<close>

definition digits_value :: "pystr \<Rightarrow> nat" where
  "digits_value ds = foldl (\<lambda>a d. 10 * a + (d - 48)) 0 ds"

section \<open>Properties of the scanner\<close>

lemma split_where_nonempty: "split_where P xs \<noteq> []"
  by (induction xs) (auto split: list.splits)

lemma spec_records_append:
  "spec_records fn n (xs @ ys) = spec_records fn n xs @ spec_records fn (n + length xs) ys"
  by (simp add: spec_records_def enumerate_append_eq)

lemma scan_loop_stop:
  "\<not> is_text_byte t \<Longrightarrow>
   scan_loop (t # rest) fn (map unat r) idx acc =
   scan_loop rest fn [] (idx + length (spec_emit r)) (acc @ spec_records fn idx (spec_emit r))"
  by (simp add: spec_emit_def spec_records_def Let_def)

text \<open>
  The loop, started inside a run of which \<open>pre\<close> has been read, appends the records of
  the terminated runs that follow, the first of them extended by \<open>pre\<close>.
\<close>

lemma scan_loop_runs:
  "scan_loop bs fn (map unat pre) idx acc =
   acc @ spec_records fn idx (concat (map spec_emit (butlast
     (case split_where (\<lambda>b. \<not> is_text_byte b) bs of [] \<Rightarrow> [pre] | s # ss \<Rightarrow> (pre @ s) # ss))))"
proof (induction bs arbitrary: pre idx acc)
  case Nil
  then show ?case by (simp add: spec_records_def)
next
  case (Cons b bs)
  obtain s ss where sp: "split_where (\<lambda>b. \<not> is_text_byte b) bs = s # ss"
    using split_where_nonempty [of "\<lambda>b. \<not> is_text_byte b" bs]
    by (cases "split_where (\<lambda>b. \<not> is_text_byte b) bs") auto
  show ?case
  proof (cases "is_text_byte b")
    case True
    have "scan_loop (b # bs) fn (map unat pre) idx acc
          = scan_loop bs fn (map unat (pre @ [b])) idx acc"
      using True by simp
    then show ?thesis using Cons.IH [of "pre @ [b]" idx acc] True by (simp add: sp)
  next
    case False
    show ?thesis
      unfolding scan_loop_stop [OF False]
      using Cons.IH [of "[]" "idx + length (spec_emit pre)" "acc @ spec_records fn idx (spec_emit pre)"]
        False
      by (simp add: sp spec_records_append)
  qed
qed

lemma scan_refines_spec: "extract_strings_from_binary content fn = spec_scan content fn"
proof -
  obtain s ss where sp: "split_where (\<lambda>b. \<not> is_text_byte b) content = s # ss"
    using split_where_nonempty [of "\<lambda>b. \<not> is_text_byte b" content]
    by (cases "split_where (\<lambda>b. \<not> is_text_byte b) content") auto
  show ?thesis
    using scan_loop_runs [of content fn "[]" 0 "[]"]
    by (simp add: extract_strings_from_binary_def spec_scan_def spec_runs_def sp)
qed

lemma scan_loop_text:
  "\<forall>b\<in>set r. is_text_byte b \<Longrightarrow>
   scan_loop (r @ rest) fn cur idx acc = scan_loop rest fn (cur @ map unat r) idx acc"
  by (induction r arbitrary: cur) auto

lemma scan_loop_tail:
  "\<forall>b\<in>set run. is_text_byte b \<Longrightarrow>
   scan_loop (pre @ run) fn cur idx acc = scan_loop pre fn cur idx acc"
proof (induction pre arbitrary: cur idx acc)
  case Nil
  then show ?case using scan_loop_text [of run "[]" fn cur idx acc] by simp
next
  case (Cons b pre)
  then show ?case by (simp add: Let_def)
qed

text \<open>
  Claim C10. A run of text bytes that reaches the end of the buffer is never emitted as a
  record, however long it is: appending such a run to any buffer leaves the scanner's
  result unchanged, and a buffer that is one such run gives no record. Only a run that a
  later non-text byte terminates can produce a record.
\<close>

theorem scanner_drops_unterminated_run:
  assumes "\<forall>b\<in>set run. is_text_byte b"
  shows "extract_strings_from_binary (pre @ run) fn = extract_strings_from_binary pre fn
         \<and> extract_strings_from_binary run fn = []"
proof -
  have "scan_loop (pre @ run) fn [] 0 [] = scan_loop pre fn [] 0 []"
    using assms by (rule scan_loop_tail)
  moreover have "scan_loop run fn [] 0 [] = []"
    using scan_loop_tail [OF assms, of "[]" fn "[]" 0 "[]"] by simp
  ultimately show ?thesis by (simp add: extract_strings_from_binary_def)
qed

theorem scanner_drops_unterminated_run_witness:
  "list_all is_text_byte (bstr ''hello world'')
   \<and> 8 \<le> length (strip (ustr ''hello world''))
   \<and> extract_strings_from_binary ([0] @ bstr ''hello world'') (ustr ''f.bin'')
       = extract_strings_from_binary [0] (ustr ''f.bin'')
   \<and> extract_strings_from_binary (bstr ''hello world'') (ustr ''f.bin'') = []
   \<and> extract_strings_from_binary (bstr ''hello world'' @ [0]) (ustr ''f.bin'')
       = [\<lparr>key = ustr ''bin_0'', original = ustr ''hello world'', file_name = ustr ''f.bin''\<rparr>]"
proof -
  have tb: "\<forall>b\<in>set (bstr ''hello world''). is_text_byte b"
    by (simp add: bstr_def is_text_byte_def)
  have len: "8 \<le> length (strip (ustr ''hello world''))"
    by (simp add: ustr_def strip_def py_isspace_def)
  have rec1: "extract_strings_from_binary (bstr ''hello world'' @ [0]) (ustr ''f.bin'')
       = [\<lparr>key = ustr ''bin_0'', original = ustr ''hello world'', file_name = ustr ''f.bin''\<rparr>]"
    by (simp add: extract_strings_from_binary_def bstr_def is_text_byte_def strip_def
        py_isspace_def ustr_def startswith_def str_nat.simps)
  show ?thesis
    using scanner_drops_unterminated_run [OF tb, of "[0]" "ustr ''f.bin''"] tb len rec1
    by (simp add: list_all_iff)
qed

text \<open>
  Claim C9, amended. The scanner computes exactly what the specification describes, with
  the guard of the code made explicit: the buffer is cut at every byte that is not text
  (32 to 126, tab, newline, carriage return); each run that such a byte terminates and
  that has at least 8 characters before trimming gives, when its trimmed text is not
  empty and starts with neither \<open>//\<close> nor \<open>#!\<close>, one record keyed \<open>bin_N\<close> by a counter
  from 0; the first 500 records are returned, so the result never exceeds 500.
\<close>

theorem scanner_refines_spec_scan:
  "extract_strings_from_binary content fn = spec_scan content fn
   \<and> length (extract_strings_from_binary content fn) \<le> 500"
  by (simp add: scan_refines_spec) (simp add: spec_scan_def)

theorem scanner_refines_spec_scan_witness:
  "spec_runs scan_example
     = [bstr ''// a comment'', bstr ''  hello world '', bstr ''        '', bstr ''short'',
        bstr ''#!/bin/sh -e'', bstr ''second text'']
   \<and> extract_strings_from_binary scan_example (ustr ''f.bin'')
     = [\<lparr>key = ustr ''bin_0'', original = ustr ''hello world'', file_name = ustr ''f.bin''\<rparr>,
        \<lparr>key = ustr ''bin_1'', original = ustr ''second text'', file_name = ustr ''f.bin''\<rparr>]"
proof -
  have runs: "spec_runs scan_example
     = [bstr ''// a comment'', bstr ''  hello world '', bstr ''        '', bstr ''short'',
        bstr ''#!/bin/sh -e'', bstr ''second text'']"
    by (simp add: spec_runs_def scan_example_def bstr_def is_text_byte_def)
  have "spec_scan scan_example (ustr ''f.bin'')
     = [\<lparr>key = ustr ''bin_0'', original = ustr ''hello world'', file_name = ustr ''f.bin''\<rparr>,
        \<lparr>key = ustr ''bin_1'', original = ustr ''second text'', file_name = ustr ''f.bin''\<rparr>]"
    unfolding spec_scan_def runs
    by (simp add: spec_emit_def spec_records_def bstr_def ustr_def strip_def py_isspace_def
        startswith_def enumerate_eq_zip upt_rec str_nat.simps)
  then show ?thesis
    using scanner_refines_spec_scan [of scan_example "ustr ''f.bin''"] runs by simp
qed

text \<open>
  The claim as it is worded fails on a run of blanks: eight spaces ended by a zero byte
  are a terminated run of 8 characters whose trimmed text starts with no comment marker,
  and the scanner returns no record for it.
\<close>

theorem scanner_blank_run_counterexample:
  "list_all is_text_byte (bstr ''        '') \<and> 8 \<le> length (bstr ''        '')
   \<and> \<not> is_text_byte 0
   \<and> \<not> startswith (strip (map unat (bstr ''        ''))) (ustr ''//'')
   \<and> \<not> startswith (strip (map unat (bstr ''        ''))) (ustr ''#!'')
   \<and> extract_strings_from_binary (bstr ''        '' @ [0]) (ustr ''f.bin'') = []"
  by (simp add: extract_strings_from_binary_def bstr_def ustr_def is_text_byte_def strip_def
      py_isspace_def startswith_def)

section \<open>Evaluation on concrete inputs\<close>

lemmas py_defs = ustr_def bstr_def py_slice_def startswith_def endswith_def py_isspace_def
  lstrip_chars_def rstrip_chars_def strip_chars_def strip_def is_cont_def ok_second3_def
  ok_second4_def replace_errors_def utf8_decode_replace_def utf8_decode_strict_def
  utf16_le_decode_replace_def le_nat_def unpack_from_def isprintable_def is_text_byte_def
  extract_strings_from_binary_def read_uint32_def read_int32_def read_fstring_def Let_def

lemma replicate_numeral_unfold: "replicate (numeral k) x = x # replicate (pred_numeral k) x"
  by (simp add: numeral_eq_Suc)

lemma locres_keys_numeral:
  "locres_keys c f ns (numeral k) pos s = locres_keys c f ns (Suc (pred_numeral k)) pos s"
  by (simp only: numeral_eq_Suc)

lemma locres_example_parsed:
  "parse_locres locres_example (ustr ''a.locres'')
   = [\<lparr>key = ustr ''ns.k'', original = ustr ''Hi'', file_name = ustr ''a.locres''\<rparr>,
      \<lparr>key = ustr ''ns.m'', original = ustr ''Bye'', file_name = ustr ''a.locres''\<rparr>]"
  by (simp add: parse_locres_def locres_example_def py_defs locres_walk_def locres_keys_numeral
      replicate_numeral_unfold)

section \<open>The decoding of a string (.locres)\<close>


















section \<open>Patching a string table\<close>

lemma patch_locres_loop_keeps_data:
  "patch_locres_loop data items = Inr data \<or> patch_locres_loop data items = Inl UnicodeEncodeError"
proof (induction items)
  case Nil
  then show ?case by simp
next
  case (Cons item items)
  obtain k0 translation where item: "item = (k0, translation)" by (cases item)
  have enc: "utf8_encode s = Inl e \<Longrightarrow> e = UnicodeEncodeError" for s e
    by (induction s) (auto split: sum.splits if_splits)
  show ?case
    using Cons enc by (auto simp: item Let_def split: sum.splits)
qed

text \<open>
  Claim C1 (a defect of the code). \<open>patch_locres\<close> rebuilds nothing: on the table
  \<open>locres_example\<close>, patched with the translation \<open>Hello\<close> for the key \<open>ns.k\<close> (6 bytes
  with its zero byte, where the value \<open>Hi\<close> has 3), the bytes written are the input,
  the prefix of that value is still 3 and the table still reads \<open>Hi\<close>.
\<close>

theorem patch_locres_writes_input_unchanged:
  "patch_locres example_env locres_example (JObject [(ustr ''ns.k'', JStr (ustr ''Hello''))])
     (ustr ''it'') (ustr ''/tmp/tmpx/patched_a.locres'')
     = Inr locres_example
   \<and> utf8_encode (ustr ''Hello'') = Inr (bstr ''Hello'')
   \<and> py_slice locres_example 45 49 = [3, 0, 0, 0]
   \<and> parse_locres locres_example (ustr ''a.locres'')
     = [\<lparr>key = ustr ''ns.k'', original = ustr ''Hi'', file_name = ustr ''a.locres''\<rparr>,
        \<lparr>key = ustr ''ns.m'', original = ustr ''Bye'', file_name = ustr ''a.locres''\<rparr>]"
proof -
  have "patch_locres_loop locres_example [(ustr ''ns.k'', JStr (ustr ''Hello''))]
     = Inr locres_example"
    by (simp add: py_defs)
  moreover have "write_file example_env (ustr ''/tmp/tmpx/patched_a.locres'') locres_example
     = Inr locres_example"
    by (simp add: write_file_def path_join_def example_env_def py_defs)
  ultimately have "patch_locres example_env locres_example
      (JObject [(ustr ''ns.k'', JStr (ustr ''Hello''))]) (ustr ''it'')
      (ustr ''/tmp/tmpx/patched_a.locres'') = Inr locres_example"
    by (simp add: patch_locres_def)
  moreover have "utf8_encode (ustr ''Hello'') = Inr (bstr ''Hello'')"
    by (simp add: py_defs)
  moreover have "py_slice locres_example 45 49 = [3, 0, 0, 0]"
    by (simp add: locres_example_def py_defs replicate_numeral_unfold)
  ultimately show ?thesis using locres_example_parsed by simp
qed

lemma path_join_relative:
  "\<not> startswith b [47] \<Longrightarrow> path_join a b = path_join a [] @ b"
  by (simp add: path_join_def startswith_def)

text \<open>A file name with a slash or a zero character cannot be written in the fresh directory.\<close>

lemma write_file_bad_name:
  assumes "47 \<in> set fname \<or> 0 \<in> set fname"
  shows "isl (write_file env (path_join (mkdtemp env) (ustr ''patched_'' @ fname)) data)"
proof -
  have rel: "\<not> startswith (ustr ''patched_'' @ fname) [47]"
    by (simp add: startswith_def ustr_def)
  have p: "path_join (mkdtemp env) (ustr ''patched_'' @ fname)
           = path_join (mkdtemp env) [] @ ustr ''patched_'' @ fname"
    by (rule path_join_relative [OF rel])
  show ?thesis
    using assms unfolding p
    by (auto simp: write_file_def startswith_def split: option.splits)
qed

lemma write_file_good_name:
  assumes "fs_error env (path_join (mkdtemp env) (ustr ''patched_'' @ fname)) = None"
    and "0 \<notin> set (mkdtemp env)" and "0 \<notin> set fname" and "47 \<notin> set fname"
  shows "write_file env (path_join (mkdtemp env) (ustr ''patched_'' @ fname)) data = Inr data"
proof -
  have rel: "\<not> startswith (ustr ''patched_'' @ fname) [47]"
    by (simp add: startswith_def ustr_def)
  have p: "path_join (mkdtemp env) (ustr ''patched_'' @ fname)
           = path_join (mkdtemp env) [] @ ustr ''patched_'' @ fname"
    by (rule path_join_relative [OF rel])
  have z: "0 \<notin> set (path_join (mkdtemp env) [])"
    using assms(2) by (simp add: path_join_def startswith_def)
  have "0 \<notin> set (ustr ''patched_'')" "47 \<notin> set (ustr ''patched_'')"
    by (simp_all add: ustr_def)
  then show ?thesis
    using assms z unfolding write_file_def p
    by (simp add: startswith_def)
qed

lemma engine_names:
  "ustr ''unreal'' \<noteq> ustr ''unity''" "ustr ''godot'' \<noteq> ustr ''unity''"
  "ustr ''godot'' \<noteq> ustr ''unreal''" "ustr ''godot'' \<noteq> ustr ''rpgmaker_xp''"
  by (simp_all add: ustr_def)

text \<open>With such a file name the patch fails for every engine that writes a file.\<close>

lemma generate_patch_unwritable_name:
  assumes "47 \<in> set fname \<or> 0 \<in> set fname"
  shows "isl (generate_patch env content fname (ustr ''unreal'') language (JObject []))"
  using write_file_bad_name [OF assms, of env content] engine_names
  by (auto simp: generate_patch_def patch_locres_def Let_def split: sum.splits)

text \<open>
  Claim C2, amended. For the engine \<open>unreal\<close>, every buffer and every file name under which
  the output file can be written (a name without a slash and without a zero character,
  in a directory the file system does not refuse), patching with an empty translation
  map returns the original bytes, byte for byte. For the engine \<open>godot\<close> there is no
  patch codec: whatever the buffer, the file name and the translations, the operation
  fails.
\<close>

theorem patch_round_trip_unreal_only:
  "(fs_error env (path_join (mkdtemp env) (ustr ''patched_'' @ fname)) = None
      \<and> 0 \<notin> set (mkdtemp env) \<and> 0 \<notin> set fname \<and> 47 \<notin> set fname \<longrightarrow>
      generate_patch env content fname (ustr ''unreal'') language (JObject [])
        = Inr \<lparr>response_path = path_join (mkdtemp env) (ustr ''patched_'' @ fname),
               download_name = ustr ''patched_'' @ language @ ustr ''_'' @ fname,
               body = content\<rparr>)
   \<and> isl (generate_patch env content fname (ustr ''godot'') language translations)"
proof -
  have good: "generate_patch env content fname (ustr ''unreal'') language (JObject [])
        = Inr \<lparr>response_path = path_join (mkdtemp env) (ustr ''patched_'' @ fname),
               download_name = ustr ''patched_'' @ language @ ustr ''_'' @ fname,
               body = content\<rparr>"
    if "fs_error env (path_join (mkdtemp env) (ustr ''patched_'' @ fname)) = None"
      and "0 \<notin> set (mkdtemp env)" and "0 \<notin> set fname" and "47 \<notin> set fname"
    using write_file_good_name [OF that, of content] engine_names
    by (simp add: generate_patch_def patch_locres_def Let_def)
  have godot: "isl (generate_patch env content fname (ustr ''godot'') language translations)"
    using engine_names by (simp add: generate_patch_def Let_def)
  from good godot show ?thesis by blast
qed

theorem patch_round_trip_unreal_only_witness:
  "fs_error example_env (path_join (mkdtemp example_env) (ustr ''patched_'' @ ustr ''a.locres''))
     = None
   \<and> 0 \<notin> set (mkdtemp example_env) \<and> 0 \<notin> set (ustr ''a.locres'')
   \<and> 47 \<notin> set (ustr ''a.locres'')
   \<and> generate_patch example_env locres_example (ustr ''a.locres'') (ustr ''unreal'') (ustr ''it'')
        (JObject [])
      = Inr \<lparr>response_path = ustr ''/tmp/tmpx/patched_a.locres'',
             download_name = ustr ''patched_it_a.locres'', body = locres_example\<rparr>"
proof -
  have h: "fs_error example_env
      (path_join (mkdtemp example_env) (ustr ''patched_'' @ ustr ''a.locres'')) = None
    \<and> 0 \<notin> set (mkdtemp example_env) \<and> 0 \<notin> set (ustr ''a.locres'')
    \<and> 47 \<notin> set (ustr ''a.locres'')"
    by (simp add: example_env_def ustr_def)
  have p: "path_join (mkdtemp example_env) (ustr ''patched_'' @ ustr ''a.locres'')
      = ustr ''/tmp/tmpx/patched_a.locres''"
    by (simp add: path_join_def example_env_def ustr_def startswith_def)
  from patch_round_trip_unreal_only
    [of example_env "ustr ''a.locres''" locres_example "ustr ''it''"] h
  have "generate_patch example_env locres_example (ustr ''a.locres'') (ustr ''unreal'')
      (ustr ''it'') (JObject [])
      = Inr \<lparr>response_path = ustr ''/tmp/tmpx/patched_a.locres'',
             download_name = ustr ''patched_it_a.locres'', body = locres_example\<rparr>"
    by (simp add: p) (simp add: ustr_def)
  then show ?thesis using h by blast
qed

text \<open>
  The claim as it is worded fails for the engine \<open>godot\<close>: patching an archive with an
  empty translation map returns an error, not the bytes of the archive.
\<close>

theorem patch_godot_counterexample:
  "generate_patch example_env (bstr ''GDPC'') (ustr ''game.pck'') (ustr ''godot'') (ustr ''it'')
     (JObject [])
   = Inl (HTTPException 500
            (ustr ''Errore generazione patch: 400: Patch non supportata per engine: godot''))"
  by (simp add: generate_patch_def example_env_def ustr_def str_nat.simps Let_def)

section \<open>Falling back to the scanner\<close>

lemma parse_locres_fallback:
  "locres_walk content fn = Inl e \<Longrightarrow>
   parse_locres content fn = extract_strings_from_binary content fn"
  by (simp add: parse_locres_def)

lemma locres_cut_falls_back:
  "parse_locres locres_cut (ustr ''a.locres'')
   = [\<lparr>key = ustr ''bin_0'', original = ustr ''Hello world!'', file_name = ustr ''a.locres''\<rparr>]"
proof -
  have "locres_walk locres_cut (ustr ''a.locres'') = Inl StructError"
    by (simp add: locres_cut_def py_defs locres_walk_def locres_keys_numeral
        replicate_numeral_unfold)
  moreover have "extract_strings_from_binary locres_cut (ustr ''a.locres'')
    = [\<lparr>key = ustr ''bin_0'', original = ustr ''Hello world!'', file_name = ustr ''a.locres''\<rparr>]"
    by (simp add: locres_cut_def py_defs replicate_numeral_unfold str_nat.simps)
  ultimately show ?thesis by (simp add: parse_locres_def)
qed

text \<open>
  Claim C4 (a defect of the code). A length prefix that points past the end of the buffer
  does not make the walk fail when it is the last thing read: in \<open>locres_truncated\<close> the
  value declares 100 bytes and 3 are left, the slice is cut silently, and the codec
  returns the structured record with the text \<open>abc\<close> where the scanner alone returns
  nothing for this buffer.
\<close>

theorem parse_locres_keeps_truncated_value:
  "length locres_truncated = 48
   \<and> read_int32 locres_truncated 41 = Inr (100, 45)
   \<and> parse_locres locres_truncated (ustr ''a.locres'')
     = [\<lparr>key = ustr ''.k'', original = ustr ''abc'', file_name = ustr ''a.locres''\<rparr>]
   \<and> extract_strings_from_binary locres_truncated (ustr ''a.locres'') = []"
proof -
  have "length locres_truncated = 48"
    by (simp add: locres_truncated_def bstr_def)
  moreover have "read_int32 locres_truncated 41 = Inr (100, 45)"
    by (simp add: locres_truncated_def py_defs replicate_numeral_unfold)
  moreover have "parse_locres locres_truncated (ustr ''a.locres'')
     = [\<lparr>key = ustr ''.k'', original = ustr ''abc'', file_name = ustr ''a.locres''\<rparr>]"
    by (simp add: parse_locres_def locres_truncated_def py_defs locres_walk_def
        replicate_numeral_unfold)
  moreover have "extract_strings_from_binary locres_truncated (ustr ''a.locres'') = []"
    by (simp add: locres_truncated_def py_defs replicate_numeral_unfold)
  ultimately show ?thesis by simp
qed

section \<open>Dispatch\<close>

lemma parse_file_no_codec:
  assumes "eng \<notin> {ustr ''unity'', ustr ''unreal'', ustr ''rpgmaker_xp'', ustr ''godot''}"
    and "list_all (\<lambda>ext. \<not> endswith (lower env fname) (ustr ext))
           [''.assets'', ''.asset'', ''.bundle'', ''.locres'', ''.rvdata2'', ''.pck'']"
  shows "parse_file env content fname eng
         = Inl (HTTPException 500
                  (ustr ''Errore parsing: ''
                   @ exn_str env (HTTPException 400
                                    (ustr ''Formato non supportato: '' @ lower env fname))))"
  using assms by (simp add: parse_file_def Let_def)

text \<open>
  Claim C8 (a defect of the code). With the engine hint \<open>cryengine\<close> and the file name
  \<open>level.bin\<close> no codec matches and no parser runs, but the exception of the status 400
  that \<open>parse_file\<close> raises for the unsupported format is raised inside its own \<open>try\<close>:
  the handler catches it and the operation fails with the status 500 and the detail
  \<open>Errore parsing\<close>, as it does when a codec that did match fails (here a UnityPy loader
  that raises). The caller does not get an error of the unsupported format.
\<close>

theorem parse_file_unsupported_is_parsing_error:
  "parse_file example_env (bstr ''some text that the scanner would find'' @ [0])
       (ustr ''level.bin'') (ustr ''cryengine'')
     = Inl (HTTPException 500
              (ustr ''Errore parsing: ''
               @ exn_str example_env
                   (HTTPException 400 (ustr ''Formato non supportato: level.bin''))))
   \<and> parse_file broken_unity_env (bstr ''some text that the scanner would find'' @ [0])
       (ustr ''level.assets'') (ustr ''unity'')
     = Inl (HTTPException 500
              (ustr ''Errore parsing: ''
               @ exn_str broken_unity_env (LibraryError (ustr ''bad file''))))"
proof -
  have h1: "ustr ''cryengine'' \<notin> {ustr ''unity'', ustr ''unreal'', ustr ''rpgmaker_xp'', ustr ''godot''}"
    by (simp add: ustr_def)
  have h2: "list_all (\<lambda>ext. \<not> endswith (lower example_env (ustr ''level.bin'')) (ustr ext))
         [''.assets'', ''.asset'', ''.bundle'', ''.locres'', ''.rvdata2'', ''.pck'']"
    by (simp add: example_env_def ustr_def endswith_def)
  have l: "lower example_env s = s" for s
    by (simp add: example_env_def)
  have "parse_file broken_unity_env (bstr ''some text that the scanner would find'' @ [0])
       (ustr ''level.assets'') (ustr ''unity'')
     = Inl (HTTPException 500
              (ustr ''Errore parsing: ''
               @ exn_str broken_unity_env (LibraryError (ustr ''bad file''))))"
    by (simp add: parse_file_def parse_unity_def broken_unity_env_def example_env_def Let_def)
  moreover have "ustr ''Formato non supportato: '' @ ustr ''level.bin''
      = ustr ''Formato non supportato: level.bin''"
    by (simp add: ustr_def)
  ultimately show ?thesis
    using parse_file_no_codec [OF h1 h2] by (simp add: l)
qed

section \<open>Keys\<close>

lemma digits_value_str_nat: "digits_value (str_nat n) = n"
proof (induction n rule: str_nat.induct)
  case (1 n)
  show ?case
  proof (cases "n < 10")
    case True
    then show ?thesis by (simp add: str_nat.simps [of n] digits_value_def)
  next
    case False
    with 1 have "digits_value (str_nat (n div 10)) = n div 10" by simp
    with False show ?thesis
      by (simp add: str_nat.simps [of n] digits_value_def)
  qed
qed

lemma str_nat_inj: "str_nat n = str_nat m \<Longrightarrow> n = m"
  by (metis digits_value_str_nat)

lemma counter_keys_distinct: "distinct (map (\<lambda>i. p @ str_nat i) [a..<b])"
  by (auto simp: distinct_map inj_on_def dest: str_nat_inj)

lemma spec_records_keys:
  "map key (spec_records fn n ss) = map (\<lambda>i. ustr ''bin_'' @ str_nat i) [n..<n + length ss]"
proof -
  have "map key (spec_records fn n ss)
        = map ((\<lambda>i. ustr ''bin_'' @ str_nat i) \<circ> fst) (enumerate n ss)"
    by (simp add: spec_records_def case_prod_unfold comp_def)
  also have "\<dots> = map (\<lambda>i. ustr ''bin_'' @ str_nat i) (map fst (enumerate n ss))"
    by (simp only: map_map)
  finally show ?thesis by (simp only: map_fst_enumerate)
qed

lemma scanner_keys_distinct: "distinct (map key (extract_strings_from_binary content fn))"
proof -
  have "distinct (map key (spec_records fn 0 ss))" for ss
    unfolding spec_records_keys by (rule counter_keys_distinct)
  then show ?thesis
    by (simp add: scan_refines_spec spec_scan_def take_map [symmetric] distinct_take)
qed

section \<open>The scan of an object stream (.rvdata2)\<close>

lemma rv_loop_end:
  "\<not> pos + 4 < length content \<Longrightarrow> rv_loop env content fn pos i acc = acc"
  by (subst rv_loop.simps) simp

lemma rv_loop_other:
  "pos + 4 < length content \<Longrightarrow> content ! pos \<noteq> 0x22 \<Longrightarrow>
   rv_loop env content fn pos i acc = rv_loop env content fn (pos + 1) i acc"
  by (subst rv_loop.simps) simp

lemma rv_loop_tag:
  "pos + 4 < length content \<Longrightarrow> content ! pos = 0x22 \<Longrightarrow>
   rv_length content (pos + 2) (content ! (pos + 1)) = (len, q) \<Longrightarrow>
   rv_loop env content fn pos i acc =
     (case utf8_decode_strict (py_slice content q (q + len)) of
        None \<Rightarrow> rv_loop env content fn (q + 1) i acc
      | Some s \<Rightarrow>
          if 2 < length s \<and> isprintable env s
          then rv_loop env content fn (q + len) (i + 1)
                 (acc @ [\<lparr>key = ustr ''str_'' @ str_nat i, original = s, file_name = fn\<rparr>])
          else rv_loop env content fn (q + len) i acc)"
  by (subst rv_loop.simps) (simp split: option.splits)

text \<open>
  An invariant of the loop: the records it adds are keyed \<open>str_i\<close>, \<open>str_(i+1)\<close>, ... in
  the order found, and each holds a printable text of at least 3 characters.
\<close>

lemma rv_loop_records:
  "\<exists>new. rv_loop env content fn pos i acc = acc @ new
     \<and> map key new = map (\<lambda>k. ustr ''str_'' @ str_nat k) [i..<i + length new]
     \<and> list_all (\<lambda>r. 2 < length (original r) \<and> isprintable env (original r) \<and> file_name r = fn) new"
proof (induction env content fn pos i acc rule: rv_loop.induct)
  case (1 env content fn pos i acc)
  show ?case
  proof (cases "pos + 4 < length content")
    case False
    then show ?thesis by (intro exI [of _ "[]"]) (simp add: rv_loop_end)
  next
    case inb: True
    show ?thesis
    proof (cases "content ! pos = 0x22")
      case False
      with inb 1(4) show ?thesis by (simp add: rv_loop_other)
    next
      case tag: True
      obtain len q where h: "rv_length content (pos + 2) (content ! (pos + 1)) = (len, q)"
        by (cases "rv_length content (pos + 2) (content ! (pos + 1))")
      show ?thesis
      proof (cases "utf8_decode_strict (py_slice content q (q + len))")
        case None
        with inb tag h 1(1) show ?thesis by (simp add: rv_loop_tag [OF inb tag h])
      next
        case (Some s)
        show ?thesis
        proof (cases "2 < length s \<and> isprintable env s")
          case False
          with inb tag h Some 1(3) [of s] show ?thesis
            by (auto simp: rv_loop_tag [OF inb tag h])
        next
          case True
          let ?r = "\<lparr>key = ustr ''str_'' @ str_nat i, original = s, file_name = fn\<rparr>"
          from 1(2) [of s] inb tag h Some True obtain new where
            new: "rv_loop env content fn (q + len) (i + 1) (acc @ [?r]) = (acc @ [?r]) @ new"
              "map key new = map (\<lambda>k. ustr ''str_'' @ str_nat k) [i + 1..<i + 1 + length new]"
              "list_all (\<lambda>r. 2 < length (original r) \<and> isprintable env (original r) \<and> file_name r = fn) new"
            by auto
          have "rv_loop env content fn pos i acc = acc @ (?r # new)"
            using Some True new(1) by (simp add: rv_loop_tag [OF inb tag h])
          moreover have "map key (?r # new)
              = map (\<lambda>k. ustr ''str_'' @ str_nat k) [i..<i + length (?r # new)]"
          proof -
            have "i < i + length (?r # new)" by simp
            from upt_conv_Cons [OF this]
            have "[i..<i + length (?r # new)] = i # [Suc i..<i + length (?r # new)]" .
            moreover have "i + length (?r # new) = i + 1 + length new" by simp
            moreover have "Suc i = i + 1" by simp
            ultimately have "[i..<i + length (?r # new)] = i # [i + 1..<i + 1 + length new]"
              by metis
            then show ?thesis using new(2) by (simp del: upt_Suc)
          qed
          moreover have "list_all (\<lambda>r. 2 < length (original r) \<and> isprintable env (original r)
              \<and> file_name r = fn) (?r # new)"
            using new(3) True by simp
          ultimately show ?thesis by blast
        qed
      qed
    qed
  qed
qed

lemma rvdata2_keys_distinct: "distinct (map key (parse_rvdata2 env content fn))"
proof -
  obtain new where "parse_rvdata2 env content fn = new"
    "map key new = map (\<lambda>k. ustr ''str_'' @ str_nat k) [0..<0 + length new]"
    using rv_loop_records [of env content fn 2 0 "[]"] by (auto simp: parse_rvdata2_def)
  then show ?thesis by (simp add: counter_keys_distinct)
qed

text \<open>
  Claim C3, amended. The keys of one extraction are pairwise distinct for the heuristic
  scanner (so for every fallback to it) and for the object-stream codec, whose keys
  are counters. The string-table codec, the archive codec and the textual fallback for
  Unity take their keys from the input (namespace and key, inner path and line, field
  name) and repeat a key that the input repeats.
\<close>

theorem counter_keys_are_distinct:
  "distinct (map key (extract_strings_from_binary content fn))
   \<and> distinct (map key (parse_rvdata2 env content fn))"
  using scanner_keys_distinct rvdata2_keys_distinct by blast

theorem counter_keys_are_distinct_witness:
  "distinct (map key (extract_strings_from_binary scan_example (ustr ''f.bin'')))
   \<and> map key (extract_strings_from_binary scan_example (ustr ''f.bin''))
       = [ustr ''bin_0'', ustr ''bin_1'']
   \<and> distinct (map key (parse_rvdata2 example_env rv_example (ustr ''m.rvdata2'')))
   \<and> map key (parse_rvdata2 example_env rv_example (ustr ''m.rvdata2''))
       = [ustr ''str_0'', ustr ''str_1'']"
proof -
  have "map key (extract_strings_from_binary scan_example (ustr ''f.bin''))
       = [ustr ''bin_0'', ustr ''bin_1'']"
    by (simp add: scan_example_def py_defs str_nat.simps)
  moreover have "map key (parse_rvdata2 example_env rv_example (ustr ''m.rvdata2''))
       = [ustr ''str_0'', ustr ''str_1'']"
    by (simp add: parse_rvdata2_def rv_example_def rv_loop.simps rv_length_def py_defs
        str_nat.simps example_env_def)
  ultimately show ?thesis
    using counter_keys_are_distinct [of scan_example "ustr ''f.bin''" example_env]
      counter_keys_are_distinct [of rv_example "ustr ''m.rvdata2''" example_env]
    by simp
qed

text \<open>
  The claim as it is worded fails for the two codecs that key by name: a textual asset
  with the field \<open>a\<close> on two lines, and a string table with the entry \<open>ns.k\<close> twice, each
  give two records with one key.
\<close>

theorem repeated_keys_counterexample:
  "map key (parse_unity_yaml_fallback yaml_duplicate (ustr ''x.asset'')) = [ustr ''a'', ustr ''a'']
   \<and> \<not> distinct (map key (parse_unity_yaml_fallback yaml_duplicate (ustr ''x.asset'')))
   \<and> map key (parse_locres locres_duplicate (ustr ''a.locres'')) = [ustr ''ns.k'', ustr ''ns.k'']
   \<and> \<not> distinct (map key (parse_locres locres_duplicate (ustr ''a.locres'')))"
proof -
  have "map key (parse_unity_yaml_fallback yaml_duplicate (ustr ''x.asset'')) = [ustr ''a'', ustr ''a'']"
    by (simp add: parse_unity_yaml_fallback_def yaml_duplicate_def py_defs)
  moreover have "map key (parse_locres locres_duplicate (ustr ''a.locres''))
      = [ustr ''ns.k'', ustr ''ns.k'']"
    by (simp add: locres_duplicate_def py_defs locres_walk_def parse_locres_def
        locres_keys_numeral replicate_numeral_unfold)
  ultimately show ?thesis by simp
qed

lemma high_bit: "(b AND 0x80 \<noteq> 0) = (128 \<le> unat b)" for b :: byte
proof -
  have lt: "unat b < 256" using unsigned_less [of b] by simp
  have "(b AND 0x80 = 0) = (unat (b AND 0x80) = 0)"
    by (simp add: unat_eq_0)
  also have "\<dots> = (unat b AND 2 ^ 7 = 0)"
    by (simp add: unsigned_and_eq)
  also have "\<dots> = (\<not> bit (unat b) 7)"
    by (rule and_exp_eq_0_iff_not_bit)
  also have "\<dots> = (\<not> odd (unat b div 2 ^ 7))"
    by (simp add: bit_iff_odd)
  also have "\<dots> = (unat b < 128)"
  proof (cases "unat b < 128")
    case True
    then show ?thesis by simp
  next
    case False
    with lt have "unat b div 2 ^ 7 = 1" by simp
    with False show ?thesis by simp
  qed
  finally show ?thesis by auto
qed

lemma low_bits: "unat (b AND 0x7f) = unat b mod 128" for b :: byte
proof -
  have "unat (b AND 0x7f) = unat b AND mask 7"
    by (simp add: unsigned_and_eq mask_eq_exp_minus_1)
  also have "\<dots> = take_bit 7 (unat b)"
    by (simp add: take_bit_eq_mask)
  finally show ?thesis by (simp add: take_bit_eq_mod)
qed

text \<open>
  The length encoding: a byte below 128 is the length itself (so are the values 0 to
  122); a byte with the high bit set gives, in its low seven bits, the number of
  following bytes that hold the length, least significant byte first.
\<close>

lemma rv_length_cases:
  "rv_length content p b =
     (if unat b < 128 then (unat b, p)
      else (le_nat (py_slice content p (p + (unat b - 128))), p + (unat b - 128)))"
proof -
  have "unat b < 256" using unsigned_less [of b] by simp
  then have "128 \<le> unat b \<Longrightarrow> unat b mod 128 = unat b - 128"
    by (simp add: mod_if)
  then show ?thesis
    by (auto simp: rv_length_def high_bit low_bits Let_def)
qed

lemma rv_loop_result:
  "map key (parse_rvdata2 env content fn)
     = map (\<lambda>k. ustr ''str_'' @ str_nat k) [0..<length (parse_rvdata2 env content fn)]
   \<and> list_all (\<lambda>r. 2 < length (original r) \<and> isprintable env (original r) \<and> file_name r = fn)
        (parse_rvdata2 env content fn)"
  using rv_loop_records [of env content fn 2 0 "[]"] by (auto simp: parse_rvdata2_def)

text \<open>
  Claim C6, amended. \<open>parse_rvdata2\<close> is one forward scan from offset 2 while more than
  four bytes are left. A byte other than the tag 0x22 is passed by one position. After
  a tag, the next byte is the length when it is below 128, and otherwise its low seven
  bits count the bytes of a little-endian length. The bytes of that length (as many as
  the buffer still has) are decoded as strict UTF-8: a text that is printable and has
  at least 3 characters is collected under the key \<open>str_N\<close>, \<open>N\<close> counting the records
  in scan order, and the scan goes on after the string; a text that is not collected is
  passed whole; when the decoding fails the scan resumes one byte after the length
  header.
\<close>

theorem rvdata2_scan:
  "map key (parse_rvdata2 env content fn)
     = map (\<lambda>k. ustr ''str_'' @ str_nat k) [0..<length (parse_rvdata2 env content fn)]
   \<and> list_all (\<lambda>r. 2 < length (original r) \<and> isprintable env (original r) \<and> file_name r = fn)
        (parse_rvdata2 env content fn)
   \<and> parse_rvdata2 env content fn = rv_loop env content fn 2 0 []
   \<and> rv_length content p b =
        (if unat b < 128 then (unat b, p)
         else (le_nat (py_slice content p (p + (unat b - 128))), p + (unat b - 128)))
   \<and> (\<not> pos + 4 < length content \<longrightarrow> rv_loop env content fn pos i acc = acc)
   \<and> (pos + 4 < length content \<and> content ! pos \<noteq> 0x22 \<longrightarrow>
        rv_loop env content fn pos i acc = rv_loop env content fn (pos + 1) i acc)
   \<and> (pos + 4 < length content \<and> content ! pos = 0x22
        \<and> rv_length content (pos + 2) (content ! (pos + 1)) = (len, q) \<longrightarrow>
        rv_loop env content fn pos i acc =
          (case utf8_decode_strict (py_slice content q (q + len)) of
             None \<Rightarrow> rv_loop env content fn (q + 1) i acc
           | Some s \<Rightarrow>
               if 2 < length s \<and> isprintable env s
               then rv_loop env content fn (q + len) (i + 1)
                      (acc @ [\<lparr>key = ustr ''str_'' @ str_nat i, original = s, file_name = fn\<rparr>])
               else rv_loop env content fn (q + len) i acc))"
  using rv_loop_result [of env content fn] rv_length_cases [of content p b]
    rv_loop_end [of pos content env fn i acc] rv_loop_other [of pos content env fn i acc]
    rv_loop_tag [of pos content len q env fn i acc]
  by (simp add: parse_rvdata2_def)

lemma rv_example_bytes:
  "rv_example = [4, 8, 34, 3, 97, 98, 99, 91, 34, 129, 4, 119, 120, 121, 122, 34, 2, 110, 111,
                 0, 0, 0, 0, 0]"
  by (simp add: rv_example_def bstr_def)

theorem rvdata2_scan_witness:
  "2 + 4 < length rv_example \<and> rv_example ! 2 = 0x22
   \<and> rv_length rv_example (2 + 2) (rv_example ! (2 + 1)) = (3, 4)
   \<and> utf8_decode_strict (py_slice rv_example 4 (4 + 3)) = Some (ustr ''abc'')
   \<and> rv_loop example_env rv_example (ustr ''m.rvdata2'') 2 0 []
       = rv_loop example_env rv_example (ustr ''m.rvdata2'') (4 + 3) (0 + 1)
           ([] @ [\<lparr>key = ustr ''str_'' @ str_nat 0, original = ustr ''abc'',
                   file_name = ustr ''m.rvdata2''\<rparr>])
   \<and> rv_length rv_example (8 + 2) (rv_example ! (8 + 1)) = (4, 11)
   \<and> parse_rvdata2 example_env rv_example (ustr ''m.rvdata2'')
       = [\<lparr>key = ustr ''str_0'', original = ustr ''abc'', file_name = ustr ''m.rvdata2''\<rparr>,
          \<lparr>key = ustr ''str_1'', original = ustr ''wxyz'', file_name = ustr ''m.rvdata2''\<rparr>]"
proof -
  have h1: "2 + 4 < length rv_example" by (simp add: rv_example_bytes)
  have h2: "rv_example ! 2 = 0x22" by (simp add: rv_example_bytes)
  have h3: "rv_length rv_example (2 + 2) (rv_example ! (2 + 1)) = (3, 4)"
    by (simp add: rv_example_bytes rv_length_def)
  have h4: "utf8_decode_strict (py_slice rv_example 4 (4 + 3)) = Some (ustr ''abc'')"
    by (simp add: rv_example_bytes py_defs)
  have h5: "2 < length (ustr ''abc'') \<and> isprintable example_env (ustr ''abc'')"
    by (simp add: py_defs)
  have h6: "rv_length rv_example (8 + 2) (rv_example ! (8 + 1)) = (4, 11)"
    by (simp add: rv_example_bytes rv_length_def py_defs)
  have r: "parse_rvdata2 example_env rv_example (ustr ''m.rvdata2'')
       = [\<lparr>key = ustr ''str_0'', original = ustr ''abc'', file_name = ustr ''m.rvdata2''\<rparr>,
          \<lparr>key = ustr ''str_1'', original = ustr ''wxyz'', file_name = ustr ''m.rvdata2''\<rparr>]"
    by (simp add: parse_rvdata2_def rv_example_bytes rv_loop.simps rv_length_def py_defs
        str_nat.simps example_env_def)
  from rvdata2_scan [of example_env rv_example "ustr ''m.rvdata2''" 0 0 2 0 "[]" 3 4] h1 h2 h3
  have "rv_loop example_env rv_example (ustr ''m.rvdata2'') 2 0 []
       = (case utf8_decode_strict (py_slice rv_example 4 (4 + 3)) of
             None \<Rightarrow> rv_loop example_env rv_example (ustr ''m.rvdata2'') (4 + 1) 0 []
           | Some s \<Rightarrow>
               if 2 < length s \<and> isprintable example_env s
               then rv_loop example_env rv_example (ustr ''m.rvdata2'') (4 + 3) (0 + 1)
                      ([] @ [\<lparr>key = ustr ''str_'' @ str_nat 0, original = s,
                              file_name = ustr ''m.rvdata2''\<rparr>])
               else rv_loop example_env rv_example (ustr ''m.rvdata2'') (4 + 3) 0 [])"
    by blast
  then have "rv_loop example_env rv_example (ustr ''m.rvdata2'') 2 0 []
       = rv_loop example_env rv_example (ustr ''m.rvdata2'') (4 + 3) (0 + 1)
           ([] @ [\<lparr>key = ustr ''str_'' @ str_nat 0, original = ustr ''abc'',
                   file_name = ustr ''m.rvdata2''\<rparr>])"
    using h4 h5 by (simp only: option.case if_True simp_thms)
  with h1 h2 h3 h4 h6 r show ?thesis by blast
qed

text \<open>
  The claim as it is worded fails on a length that the buffer cannot hold and on a
  decoding failure. In \<open>rv_overlong\<close> the tag at offset 2 declares 122 bytes and 7 are
  left: the scan does not skip one byte and resume (which finds nothing), it collects
  the 7 bytes as a record. In \<open>rv_resync\<close> the bytes after the tag at offset 2 do not
  decode: the scan resumes at offset 5, behind the length header, and misses the string
  that a scan resumed at offset 3, one byte after the tag, collects.
\<close>

theorem rvdata2_violation_counterexample:
  "length rv_overlong = 11 \<and> rv_overlong ! 2 = 0x22
   \<and> rv_length rv_overlong 4 (rv_overlong ! 3) = (122, 4)
   \<and> parse_rvdata2 example_env rv_overlong (ustr ''m.rvdata2'')
       = [\<lparr>key = ustr ''str_0'', original = ustr ''abcdefg'', file_name = ustr ''m.rvdata2''\<rparr>]
   \<and> rv_loop example_env rv_overlong (ustr ''m.rvdata2'') 3 0 [] = []
   \<and> rv_resync ! 2 = 0x22
   \<and> rv_length rv_resync 4 (rv_resync ! 3) = (34, 4)
   \<and> utf8_decode_strict (py_slice rv_resync 4 (4 + 34)) = None
   \<and> parse_rvdata2 example_env rv_resync (ustr ''m.rvdata2'') = []
   \<and> rv_loop example_env rv_resync (ustr ''m.rvdata2'') 5 0 [] = []
   \<and> rv_loop example_env rv_resync (ustr ''m.rvdata2'') 3 0 []
       = [\<lparr>key = ustr ''str_0'', original = ustr ''abc'', file_name = ustr ''m.rvdata2''\<rparr>]"
proof -
  have o: "rv_overlong = [4, 8, 34, 122, 97, 98, 99, 100, 101, 102, 103]"
    by (simp add: rv_overlong_def bstr_def)
  have s: "rv_resync = [4, 8, 34, 34, 3, 97, 98, 99, 255, 0, 0, 0, 0, 0]"
    by (simp add: rv_resync_def bstr_def)
  have "parse_rvdata2 example_env rv_overlong (ustr ''m.rvdata2'')
       = [\<lparr>key = ustr ''str_0'', original = ustr ''abcdefg'', file_name = ustr ''m.rvdata2''\<rparr>]"
    by (simp add: parse_rvdata2_def o rv_loop.simps rv_length_def py_defs str_nat.simps
        example_env_def)
  moreover have "rv_loop example_env rv_overlong (ustr ''m.rvdata2'') 3 0 [] = []"
    by (simp add: o rv_loop.simps)
  moreover have "rv_length rv_overlong 4 (rv_overlong ! 3) = (122, 4)"
    by (simp add: o rv_length_def)
  moreover have "rv_length rv_resync 4 (rv_resync ! 3) = (34, 4)"
    by (simp add: s rv_length_def)
  moreover have "utf8_decode_strict (py_slice rv_resync 4 (4 + 34)) = None"
    by (simp add: s py_defs)
  moreover have "parse_rvdata2 example_env rv_resync (ustr ''m.rvdata2'') = []"
    by (simp add: parse_rvdata2_def s rv_loop.simps rv_length_def py_defs)
  moreover have "rv_loop example_env rv_resync (ustr ''m.rvdata2'') 5 0 [] = []"
    by (simp add: s rv_loop.simps)
  moreover have "rv_loop example_env rv_resync (ustr ''m.rvdata2'') 3 0 []
       = [\<lparr>key = ustr ''str_0'', original = ustr ''abc'', file_name = ustr ''m.rvdata2''\<rparr>]"
    by (simp add: s rv_loop.simps rv_length_def py_defs str_nat.simps example_env_def)
  ultimately show ?thesis by (simp add: o s)
qed

section \<open>The archive codec (.pck)\<close>







end
